theory Spec2Isabelle
  imports Complex_Main "HOL-Library.Multiset"
begin

section \<open>Python values shared by the components\<close>

text \<open>
  Exceptions are values. Each constructor is an exception class that one of the modelled
  functions raises or catches; the string is the message where the source builds one.
\<close>

datatype exn =
    RuntimeError string
  | ValueError string
  | AttributeError string
  | TypeError string
  | ZeroDivisionError
  | NotADirectoryError
  | IndexError
  | OtherError string

text \<open>\<open>str(e)\<close>, as the routes put it into the detail of a response.\<close>

fun str_exn :: "exn \<Rightarrow> string" where
  "str_exn (RuntimeError msg) = msg"
| "str_exn (ValueError msg) = msg"
| "str_exn (AttributeError msg) = msg"
| "str_exn (TypeError msg) = msg"
| "str_exn ZeroDivisionError = ''division by zero''"
| "str_exn NotADirectoryError = ''Not a directory''"
| "str_exn IndexError = ''list index out of range''"
| "str_exn (OtherError msg) = msg"

section \<open>Image preprocessor (wan\_model.py, class ImageProcessor)\<close>

text \<open>
  A decoded PIL image, as far as the preprocessor reads it: its mode and its size.
  PIL sizes are never negative, hence \<open>nat\<close>.
\<close>

record image =
  mode :: string
  width :: nat
  height :: nat

text \<open>\<open>image.convert('RGB')\<close>: same size, mode RGB.\<close>

definition convert :: "image \<Rightarrow> string \<Rightarrow> image" where
  "convert img m = img\<lparr>mode := m\<rparr>"

text \<open>
  \<open>image.resize((w, h), LANCZOS)\<close> is PIL's. Its contract is an image of the requested
  size in the same mode; PIL refuses a requested dimension below 1.
\<close>

definition resize :: "image \<Rightarrow> int \<times> int \<Rightarrow> exn + image" where
  "resize img sz =
     (if fst sz < 1 \<or> snd sz < 1 then Inl (ValueError ''height and width must be > 0'')
      else Inr (img\<lparr>width := nat (fst sz), height := nat (snd sz)\<rparr>))"

text \<open>
  Python floats are IEEE doubles, modelled by their values: the result of an operation
  is its exact value rounded to 53 significant bits, ties to even. Every double the
  preprocessor meets lies in the normal range, so subnormals and overflow are left out.
  \<open>bit_length\<close> is the number of binary digits of a positive integer,
  \<open>binary_exponent\<close> the exponent \<open>e\<close> with \<open>2 ^ e \<le> x < 2 ^ (e + 1)\<close> for positive
  \<open>x\<close>.
\<close>

function bit_length :: "int \<Rightarrow> nat" where
  "bit_length n = (if n \<le> 0 then 0 else Suc (bit_length (n div 2)))"
  by pat_completeness auto
termination
  by (relation "measure nat") auto

declare bit_length.simps [simp del]

definition pow2 :: "int \<Rightarrow> real" where
  "pow2 k = (if 0 \<le> k then 2 ^ nat k else 1 / 2 ^ nat (- k))"

definition round_half_even :: "real \<Rightarrow> int" where
  "round_half_even y =
     (let f = \<lfloor>y\<rfloor>; d = y - real_of_int f
      in if d < 1 / 2 then f else if 1 / 2 < d then f + 1 else if even f then f else f + 1)"

definition binary_exponent :: "real \<Rightarrow> int" where
  "binary_exponent x =
     (if 1 \<le> x then int (bit_length \<lfloor>x\<rfloor>) - 1
      else - int (bit_length (\<lceil>1 / x\<rceil> - 1)))"

definition round_double :: "real \<Rightarrow> real" where
  "round_double x =
     (if x = 0 then 0
      else
        let ulp = pow2 (binary_exponent \<bar>x\<bar> - 52)
        in real_of_int (round_half_even (x / ulp)) * ulp)"

text \<open>
  The float operations of the preprocessor: \<open>a / b\<close> on two integers (Python rounds the
  exact quotient), the conversion of an integer that meets a float, the product of two
  floats, and \<open>int(x)\<close>, which truncates toward zero.
\<close>

definition py_truediv :: "int \<Rightarrow> int \<Rightarrow> real" where
  "py_truediv a b = round_double (real_of_int a / real_of_int b)"

definition py_float :: "int \<Rightarrow> real" where
  "py_float i = round_double (real_of_int i)"

definition float_mul :: "real \<Rightarrow> real \<Rightarrow> real" where
  "float_mul x y = round_double (x * y)"

definition py_int :: "real \<Rightarrow> int" where
  "py_int x = (if 0 \<le> x then \<lfloor>x\<rfloor> else \<lceil>x\<rceil>)"

text \<open>
  \<open>x ** 0.5\<close> on a float is the \<open>pow\<close> of the C library, which is not correctly rounded
  in general and differs between platforms: it is a parameter of the preprocessor. One
  instance, for running the model, is a library whose \<open>pow\<close> rounds correctly; at the
  exponent 1/2 that is the correctly rounded square root, computed from an integer
  square root of the argument scaled by \<open>2 ^ 240\<close> (exact for doubles from \<open>2 ^ -128\<close>
  up).
\<close>

primrec isqrt_bits :: "nat \<Rightarrow> int \<Rightarrow> int \<Rightarrow> int" where
  "isqrt_bits 0 n r = r"
| "isqrt_bits (Suc i) n r =
     (let c = r + 2 ^ i in isqrt_bits i n (if c * c \<le> n then c else r))"

definition isqrt :: "int \<Rightarrow> int" where
  "isqrt n = isqrt_bits (bit_length n) n 0"

definition sqrt_rn :: "real \<Rightarrow> real" where
  "sqrt_rn x =
     (if x \<le> 0 then 0
      else
        let scaled = x * 2 ^ 240;
            n = \<lfloor>scaled\<rfloor>;
            s = isqrt n
        in round_double
             ((real_of_int s + (if s * s = n \<and> real_of_int n = scaled then 0 else 1 / 2))
              / 2 ^ 120))"

definition correctly_rounded_pow :: "real \<Rightarrow> real \<Rightarrow> real" where
  "correctly_rounded_pow x y = (if y = 1 / 2 then sqrt_rn x else round_double (x powr y))"

text \<open>
  \<open>ImageProcessor.__call__\<close> on an already decoded image (the branch that first loads a
  path or URL only produces such an image), with the library's \<open>pow\<close> as first argument.
  \<open>max_area / original_area\<close> raises on a zero area, and a negative quotient to the power
  0.5 is a complex number, which \<open>int()\<close> refuses.
\<close>

definition ImageProcessor_call ::
  "(real \<Rightarrow> real \<Rightarrow> real) \<Rightarrow> image \<Rightarrow> int \<Rightarrow> exn + image" where
  "ImageProcessor_call fpow image0 max_area =
     (let img = (if mode image0 \<noteq> ''RGB'' then convert image0 ''RGB'' else image0);
          original_width = int (width img);
          original_height = int (height img);
          original_area = original_width * original_height
      in if original_area > max_area then
           (if original_area = 0 then Inl ZeroDivisionError
            else if max_area < 0
              then Inl (TypeError ''int() argument must be a real number, not complex'')
            else
              let scale_factor = fpow (py_truediv max_area original_area) (1 / 2);
                  new_width = py_int (float_mul (py_float original_width) scale_factor);
                  new_height = py_int (float_mul (py_float original_height) scale_factor);
                  new_width = (new_width div 8) * 8;
                  new_height = (new_height div 8) * 8
              in resize img (new_width, new_height))
         else
           (let new_width = (original_width div 8) * 8;
                new_height = (original_height div 8) * 8
            in if new_width \<noteq> original_width \<or> new_height \<noteq> original_height
               then resize img (new_width, new_height)
               else Inr img))"

section \<open>Settings (core/config.py)\<close>

text \<open>
  The fields of \<open>Settings\<close> that the modelled functions read. \<open>require_auth\<close> and
  \<open>api_token\<close> exist in the authenticated variant only; its routes read them.
\<close>

record Settings =
  model_path :: string
  device :: string
  dtype :: string
  default_num_frames :: int
  default_num_inference_steps :: int
  default_guidance_scale :: real
  default_max_area :: int
  max_file_size :: int
  allowed_extensions :: "string list"
  output_dir :: string
  require_auth :: bool
  api_token :: "string option"

text \<open>\<open>str.split(',')\<close> and \<open>str.strip()\<close>.\<close>

fun split_on :: "char \<Rightarrow> string \<Rightarrow> string list" where
  "split_on c [] = [[]]"
| "split_on c (x # xs) =
     (if x = c then [] # split_on c xs
      else (case split_on c xs of [] \<Rightarrow> [[x]] | y # ys \<Rightarrow> (x # y) # ys))"

definition is_space :: "char \<Rightarrow> bool" where
  "is_space c = (c \<in> set [CHR '' '', CHR 0x09, CHR 0x0A, CHR 0x0B, CHR 0x0C, CHR 0x0D])"

definition strip :: "string \<Rightarrow> string" where
  "strip s = rev (dropWhile is_space (rev (dropWhile is_space s)))"

text \<open>
  The validator \<open>parse_allowed_extensions\<close>: a string is split at commas and each piece
  stripped; a list is taken as it is.
\<close>

definition parse_allowed_extensions :: "string + string list \<Rightarrow> string list" where
  "parse_allowed_extensions v =
     (case v of Inl str \<Rightarrow> map strip (split_on CHR '','' str) | Inr exts \<Rightarrow> exts)"

text \<open>
  Modelled from the spec: \<open>Settings.get_allowed_extensions_list\<close>, which
  \<open>validate_image_file\<close> calls, belongs to the settings module of the authenticated
  variant, which is not among the sources. The spec has the allow-list "accepted as a
  comma-separated string and normalized to a list" and the extension "checked against the
  normalized allow-list": the accessor returns that list.
\<close>

definition get_allowed_extensions_list :: "Settings \<Rightarrow> string list" where
  "get_allowed_extensions_list settings = allowed_extensions settings"

text \<open>
  The defaults that \<open>Settings\<close> declares; the two fields of the authenticated variant
  are set to authentication off and no token.
\<close>

definition default_settings :: Settings where
  "default_settings =
     \<lparr>model_path = ''/home/chenyu/.cache/modelscope/hub/models/Wan-AI/Wan2___2-TI2V-5B-Diffusers'',
      device = ''cuda'',
      dtype = ''bfloat16'',
      default_num_frames = 121,
      default_num_inference_steps = 50,
      default_guidance_scale = 5.0,
      default_max_area = 901120,
      max_file_size = 50000000,
      allowed_extensions = [''jpg'', ''jpeg'', ''png'', ''webp'', ''bmp''],
      output_dir = ''outputs'',
      require_auth = False,
      api_token = None\<rparr>"

section \<open>File utilities (utils/file\_utils.py)\<close>

text \<open>
  An uploaded file: its filename (possibly \<open>None\<close>), its \<open>size\<close> attribute (which the
  code probes with \<open>hasattr\<close>, and which may hold \<open>None\<close>) and its bytes.
\<close>

datatype size_attr = NoSizeAttr | SizeAttr "int option"

record UploadFile =
  filename :: "string option"
  upload_size :: size_attr
  content :: string

text \<open>
  \<open>Path(filename).suffix\<close> on a POSIX path: the name is the last component that is
  neither empty nor a single dot; the suffix starts at the last dot of the name, unless
  that dot is the first or the last character (pathlib up to Python 3.12; later versions
  differ on names of dots only).
\<close>

definition path_name :: "string \<Rightarrow> string" where
  "path_name path =
     (let parts = filter (\<lambda>p. p \<noteq> [] \<and> p \<noteq> ''.'') (split_on CHR ''/'' path)
      in if parts = [] then [] else last parts)"

fun rfind :: "string \<Rightarrow> char \<Rightarrow> nat option" where
  "rfind [] c = None"
| "rfind (x # xs) c =
     (case rfind xs c of
        Some i \<Rightarrow> Some (Suc i)
      | None \<Rightarrow> if x = c then Some 0 else None)"

definition suffix :: "string \<Rightarrow> string" where
  "suffix path =
     (let name = path_name path
      in case rfind name CHR ''.'' of
           None \<Rightarrow> []
         | Some i \<Rightarrow> if 0 < i \<and> i + 1 < length name then drop i name else [])"

text \<open>\<open>str.lower()\<close> on ASCII letters, and \<open>str.lstrip('.')\<close>.\<close>

definition lower_char :: "char \<Rightarrow> char" where
  "lower_char c =
     (let n = (of_char c :: nat) in if 65 \<le> n \<and> n \<le> 90 then char_of (n + 32) else c)"

definition lower :: "string \<Rightarrow> string" where
  "lower s = map lower_char s"

definition lstrip :: "string \<Rightarrow> char \<Rightarrow> string" where
  "lstrip s c = dropWhile (\<lambda>x. x = c) s"

text \<open>The expression \<open>Path(file.filename).suffix.lower().lstrip('.')\<close>.\<close>

definition file_ext_of :: "string \<Rightarrow> string" where
  "file_ext_of name = lstrip (lower (suffix name)) CHR ''.''"

text \<open>
  \<open>validate_image_file\<close>: returns nothing on success and raises \<open>ValueError\<close>
  otherwise (the messages are kept without the interpolated values). Python's truth
  test skips the size check for a missing attribute, \<open>None\<close> and 0, and the extension
  check for a filename that is \<open>None\<close> or empty.
\<close>

definition validate_image_file :: "UploadFile \<Rightarrow> Settings \<Rightarrow> exn + unit" where
  "validate_image_file file settings =
     (if (case upload_size file of
            NoSizeAttr \<Rightarrow> False
          | SizeAttr None \<Rightarrow> False
          | SizeAttr (Some n) \<Rightarrow> n \<noteq> 0 \<and> n > max_file_size settings)
      then Inl (ValueError ''File size exceeds maximum allowed size'')
      else
        (case filename file of
           None \<Rightarrow> Inr ()
         | Some name \<Rightarrow>
             if name = [] then Inr ()
             else
               let file_ext = file_ext_of name;
                   allowed_exts = get_allowed_extensions_list settings
               in if file_ext \<notin> set allowed_exts
                  then Inl (ValueError ''File extension not allowed'')
                  else Inr ()))"

text \<open>
  The directory that \<open>list_output_files\<close> reads. A path is absent, a regular file, or a
  directory with its entries; an entry carries what \<open>is_file()\<close>, \<open>name\<close> and \<open>stat()\<close>
  give. Timestamps are floats, read as reals.
\<close>

record dir_entry =
  name :: string
  is_file :: bool
  st_size :: nat
  st_ctime :: real
  st_mtime :: real







section \<open>Launcher (scripts/start\_server.py)\<close>

text \<open>
  What the launcher meets outside itself: what importing a package does, which paths
  exist, what probing the GPU gives, and how the server subprocess ends.
\<close>

datatype import_outcome = Imported | RaisesImportError | RaisesOther string

datatype gpu_probe = GpuAvailable string nat real | GpuUnavailable | GpuProbeRaises string

datatype run_outcome = RunReturned | RunInterrupted | RunRaises string

record launcher_world =
  import_package :: "string \<Rightarrow> import_outcome"
  os_path_exists :: "string \<Rightarrow> bool"
  torch_cuda :: gpu_probe
  sys_executable :: string
  subprocess_run :: "string list \<Rightarrow> run_outcome"

text \<open>The parsed command line.\<close>

record args =
  host :: string
  port :: int
  workers :: int
  no_reload :: bool
  skip_checks :: bool

text \<open>\<open>os.path.join\<close> on POSIX paths, and \<open>str\<close> of an integer.\<close>

definition os_path_join :: "string \<Rightarrow> string \<Rightarrow> string" where
  "os_path_join a b =
     (case b of
        c # cs \<Rightarrow>
          if c = CHR ''/'' then b
          else if a = [] \<or> last a = CHR ''/'' then a @ b
          else a @ ''/'' @ b
      | [] \<Rightarrow> if a = [] \<or> last a = CHR ''/'' then a else a @ ''/'')"

fun str_nat :: "nat \<Rightarrow> string" where
  "str_nat n = (if n < 10 then [''0123456789'' ! n] else str_nat (n div 10) @ [''0123456789'' ! (n mod 10)])"

definition str_int :: "int \<Rightarrow> string" where
  "str_int i = (if i < 0 then CHR ''-'' # str_nat (nat (- i)) else str_nat (nat i))"

definition check_model_path :: "launcher_world \<Rightarrow> string \<Rightarrow> bool" where
  "check_model_path w mp =
     (if \<not> os_path_exists w mp then False
      else if \<not> list_all (\<lambda>file. os_path_exists w (os_path_join mp file)) [''model_index.json'']
        then False
      else
        let config_found =
              list_ex (\<lambda>config_file. os_path_exists w (os_path_join mp config_file))
                [''config.json'', ''configuration.json'']
        in if \<not> config_found then False else True)"

definition required_packages :: "string list" where
  "required_packages =
     [''fastapi'', ''uvicorn'', ''torch'', ''diffusers'', ''transformers'', ''PIL'', ''loguru'',
      ''pydantic'']"

text \<open>
  The loop of \<open>check_dependencies\<close>: an \<open>ImportError\<close> is caught and the package noted as
  missing; any other exception of an import leaves the function.
\<close>

fun collect_missing ::
  "(string \<Rightarrow> import_outcome) \<Rightarrow> string list \<Rightarrow> string list \<Rightarrow> exn + string list" where
  "collect_missing imp [] missing_packages = Inr missing_packages"
| "collect_missing imp (package # rest) missing_packages =
     (case imp package of
        Imported \<Rightarrow> collect_missing imp rest missing_packages
      | RaisesImportError \<Rightarrow> collect_missing imp rest (missing_packages @ [package])
      | RaisesOther msg \<Rightarrow> Inl (OtherError msg))"

definition check_dependencies :: "launcher_world \<Rightarrow> exn + bool" where
  "check_dependencies w =
     (case collect_missing (import_package w) required_packages [] of
        Inl e \<Rightarrow> Inl e
      | Inr missing_packages \<Rightarrow> if missing_packages \<noteq> [] then Inr False else Inr True)"

text \<open>\<open>check_gpu\<close> catches every exception of the probe and answers False.\<close>

definition check_gpu :: "launcher_world \<Rightarrow> bool" where
  "check_gpu w =
     (case torch_cuda w of
        GpuAvailable gpu_name gpu_count total_memory \<Rightarrow> True
      | GpuUnavailable \<Rightarrow> False
      | GpuProbeRaises msg \<Rightarrow> False)"

text \<open>
  \<open>start_server\<close> sets four environment variables, builds the uvicorn command and runs
  it. Both handlers (interrupt, any exception) only print, so the function always
  returns; the model returns what it set, what it ran and what it printed at the end.
\<close>

record launch =
  environ :: "(string \<times> string) list"
  cmd :: "string list"
  last_message :: string

definition start_server :: "launcher_world \<Rightarrow> string \<Rightarrow> int \<Rightarrow> int \<Rightarrow> bool \<Rightarrow> launch" where
  "start_server w host' port' workers' reload =
     (let env = [(''HOST'', host'), (''PORT'', str_int port'), (''WORKERS'', str_int workers'),
                 (''RELOAD'', if reload then ''true'' else ''false'')];
          command = [sys_executable w, ''-m'', ''uvicorn'', ''wan_video_api.main:app'',
                     ''--host'', host', ''--port'', str_int port']
                    @ (if reload then [''--reload''] else [''--workers'', str_int workers'])
      in \<lparr>environ = env, cmd = command,
          last_message =
            (case subprocess_run w command of
               RunReturned \<Rightarrow> []
             | RunInterrupted \<Rightarrow> ''server stopped''
             | RunRaises msg \<Rightarrow> ''start failed: '' @ msg)\<rparr>)"

text \<open>
  How \<open>main\<close> ends: it returns, it calls \<open>sys.exit\<close>, or an exception leaves it. The
  interpreter turns these into the exit codes 0, the argument of \<open>sys.exit\<close>, and 1.
\<close>

datatype ending = Returned | SystemExit int | Uncaught exn

fun exit_code :: "ending \<Rightarrow> int" where
  "exit_code Returned = 0"
| "exit_code (SystemExit n) = n"
| "exit_code (Uncaught e) = 1"

definition main :: "launcher_world \<Rightarrow> Settings \<Rightarrow> args \<Rightarrow> ending \<times> launch option" where
  "main w settings a =
     (if \<not> skip_checks a then
        (case check_dependencies w of
           Inl e \<Rightarrow> (Uncaught e, None)
         | Inr deps_ok \<Rightarrow>
             if \<not> deps_ok then (SystemExit 1, None)
             else if \<not> check_model_path w (model_path settings) then (SystemExit 1, None)
             else
               let gpu_ok = check_gpu w
               in (Returned, Some (start_server w (host a) (port a) (workers a) (\<not> no_reload a))))
      else (Returned, Some (start_server w (host a) (port a) (workers a) (\<not> no_reload a))))"

section \<open>Generation engine (models/wan\_model.py, class WanVideoModel)\<close>

text \<open>
  The diffusion pipeline is external: a function from the keyword arguments of one call
  to an exception or the list \<open>frames\<close> of its output. A frame sequence is opaque.
\<close>

type_synonym video = "nat list"

record pipe_kwargs =
  pk_image :: image
  pk_prompt :: string
  pk_negative_prompt :: string
  pk_height :: int
  pk_width :: int
  pk_num_frames :: int
  pk_guidance_scale :: real
  pk_num_inference_steps :: int

type_synonym pipeline = "pipe_kwargs \<Rightarrow> exn + video list"

record WanVideoModel =
  pipe :: "pipeline option"
  image_processor :: "unit option"
  model_device :: string
  model_dtype :: string

definition is_loaded :: "WanVideoModel \<Rightarrow> bool" where
  "is_loaded m = (pipe m \<noteq> None \<and> image_processor m \<noteq> None)"

text \<open>
  \<open>generate_video\<close> returns its result together with the calls it made into the
  pipeline, in order; its first argument is the \<open>pow\<close> that the preprocessor runs on. The handler of the \<open>try\<close> block logs and raises the same exception
  again. Calling a handle that is \<open>None\<close> would be a \<open>TypeError\<close>.
\<close>

definition generate_video ::
  "(real \<Rightarrow> real \<Rightarrow> real) \<Rightarrow> WanVideoModel \<Rightarrow> image \<Rightarrow> string \<Rightarrow> string \<Rightarrow> int \<Rightarrow> int \<Rightarrow> real \<Rightarrow> int
     \<Rightarrow> (exn + video) \<times> pipe_kwargs list" where
  "generate_video fpow m img prompt negative_prompt num_frames num_inference_steps
       guidance_scale max_area =
     (if \<not> is_loaded m then (Inl (RuntimeError ''Model not loaded''), [])
      else
        (case image_processor m of
           None \<Rightarrow> (Inl (TypeError ''NoneType object is not callable''), [])
         | Some processor \<Rightarrow>
             (case ImageProcessor_call fpow img max_area of
                Inl e \<Rightarrow> (Inl e, [])
              | Inr processed_image \<Rightarrow>
                  let kwargs = \<lparr>pk_image = processed_image, pk_prompt = prompt,
                                pk_negative_prompt = negative_prompt,
                                pk_height = int (height processed_image),
                                pk_width = int (width processed_image),
                                pk_num_frames = num_frames,
                                pk_guidance_scale = guidance_scale,
                                pk_num_inference_steps = num_inference_steps\<rparr>
                  in (case pipe m of
                        None \<Rightarrow> (Inl (TypeError ''NoneType object is not callable''), [])
                      | Some p \<Rightarrow>
                          (case p kwargs of
                             Inl e \<Rightarrow> (Inl e, [kwargs])
                           | Inr frames \<Rightarrow>
                               (case frames of
                                  [] \<Rightarrow> (Inl IndexError, [kwargs])
                                | output # others \<Rightarrow> (Inr output, [kwargs])))))))"

text \<open>
  The names that an instance answers to: the attributes that \<open>__init__\<close> sets and the
  methods that the class body defines. Looking up any other name raises
  \<open>AttributeError\<close>.
\<close>

definition WanVideoModel_attributes :: "string list" where
  "WanVideoModel_attributes =
     [''settings'', ''logger'', ''pipe'', ''image_processor'', ''device'', ''dtype'',
      ''__init__'', ''load_model'', ''is_loaded'', ''generate_video'', ''export_video'']"

definition WanVideoModel_getattr :: "string \<Rightarrow> exn + string" where
  "WanVideoModel_getattr attr =
     (if attr \<in> set WanVideoModel_attributes then Inr attr
      else Inl (AttributeError (''WanVideoModel object has no attribute '' @ attr)))"

section \<open>API routes, open variant (wan\_video\_api/api/routes.py)\<close>

datatype json =
    JString string
  | JBool bool
  | JInt int
  | JReal real
  | JObject "(string \<times> json) list"

text \<open>
  What a route gives back: a raised \<open>HTTPException\<close> (status, detail), a file response
  (path, media type, filename) or a JSON body with status 200.
\<close>

datatype response =
    HTTPException int string
  | FileResponse string string string
  | JSONResponse json

text \<open>
  Next to its response a route returns the calls that reached the engine, in order: the
  engine's \<open>generate_video\<close> with its arguments, the pipeline calls made inside it, and
  \<open>export_video\<close>.
\<close>

datatype event =
    EngineGenerateVideo image string string int int real int
  | PipelineCall pipe_kwargs
  | EngineExportVideo video string int

text \<open>
  What a request meets outside the repository: the \<open>pow\<close> of the C library, PIL's
  decoder on the uploaded bytes, the random token of \<open>uuid4().hex\<close>, \<open>mkdir\<close> and
  diffusers' \<open>export_to_video\<close>.
\<close>

record route_world =
  float_pow :: "real \<Rightarrow> real \<Rightarrow> real"
  Image_open :: "string \<Rightarrow> exn + image"
  uuid4_hex :: string
  mkdir :: "string \<Rightarrow> exn + unit"
  export_to_video :: "video \<Rightarrow> string \<Rightarrow> int \<Rightarrow> exn + unit"

text \<open>\<open>WanVideoModel.export_video\<close>: logs, and raises again what the export raised.\<close>

definition export_video :: "route_world \<Rightarrow> video \<Rightarrow> string \<Rightarrow> int \<Rightarrow> exn + unit" where
  "export_video w frames output_path fps = export_to_video w frames output_path fps"

text \<open>Python's \<open>value or default\<close> on an optional number: \<open>None\<close> and zero are false.\<close>

definition or_default :: "'a::zero option \<Rightarrow> 'a \<Rightarrow> 'a" where
  "or_default v d = (case v of None \<Rightarrow> d | Some x \<Rightarrow> if x = 0 then d else x)"

text \<open>
  The end of both generation handlers, inside their \<open>try\<close> block: make the output
  directory, export the frames at 24 fps, answer with the file.
\<close>

definition save_video ::
  "route_world \<Rightarrow> Settings \<Rightarrow> string \<Rightarrow> video \<Rightarrow> (exn + response) \<times> event list" where
  "save_video w settings output_filename output_frames =
     (let output_path = os_path_join (output_dir settings) output_filename
      in case mkdir w (output_dir settings) of
           Inl e \<Rightarrow> (Inl e, [])
         | Inr made \<Rightarrow>
             (case export_video w output_frames output_path 24 of
                Inl e \<Rightarrow> (Inl e, [EngineExportVideo output_frames output_path 24])
              | Inr exported \<Rightarrow>
                  (Inr (FileResponse output_path ''video/mp4'' output_filename),
                   [EngineExportVideo output_frames output_path 24])))"

text \<open>
  \<open>POST /generate_video\<close>. The form fields arrive as the handler's parameters, an
  omitted optional number as \<open>None\<close>.
\<close>

definition generate_video_route ::
  "route_world \<Rightarrow> WanVideoModel \<Rightarrow> Settings \<Rightarrow> UploadFile \<Rightarrow> string \<Rightarrow> string
     \<Rightarrow> int option \<Rightarrow> int option \<Rightarrow> real option \<Rightarrow> int option \<Rightarrow> response \<times> event list" where
  "generate_video_route w model settings image_file prompt negative_prompt
       num_frames num_inference_steps guidance_scale max_area =
     (if \<not> is_loaded model then (HTTPException 503 ''Model not loaded'', [])
      else
        (case validate_image_file image_file settings of
           Inl e \<Rightarrow> (HTTPException 400 (str_exn e), [])
         | Inr valid \<Rightarrow>
             let num_frames' = or_default num_frames (default_num_frames settings);
                 num_inference_steps' =
                   or_default num_inference_steps (default_num_inference_steps settings);
                 guidance_scale' = or_default guidance_scale (default_guidance_scale settings);
                 max_area' = or_default max_area (default_max_area settings);
                 body =
                   (case Image_open w (content image_file) of
                      Inl e \<Rightarrow> (Inl e, [])
                    | Inr pil_image \<Rightarrow>
                        let call = EngineGenerateVideo pil_image prompt negative_prompt
                                     num_frames' num_inference_steps' guidance_scale' max_area'
                        in (case generate_video (float_pow w) model pil_image prompt negative_prompt
                                   num_frames' num_inference_steps' guidance_scale' max_area' of
                              (Inl e, calls) \<Rightarrow> (Inl e, call # map PipelineCall calls)
                            | (Inr output_frames, calls) \<Rightarrow>
                                (case save_video w settings
                                        (''generated_video_'' @ uuid4_hex w @ ''.mp4'')
                                        output_frames of
                                   (saved, events) \<Rightarrow>
                                     (saved, call # map PipelineCall calls @ events))))
             in (case body of
                   (Inl e, events) \<Rightarrow>
                     (HTTPException 500 (''Error generating video: '' @ str_exn e), events)
                 | (Inr file_response, events) \<Rightarrow> (file_response, events))))"

text \<open>
  \<open>POST /generate_video_from_text\<close>. The handler calls
  \<open>model.generate_video_from_text(...)\<close>; the attribute is looked up on the instance
  first. The class has no method of that name, so the branch of a found attribute is
  never taken; it stands for a call that the attribute found does not accept.
\<close>

definition generate_video_from_text_route ::
  "route_world \<Rightarrow> WanVideoModel \<Rightarrow> Settings \<Rightarrow> string \<Rightarrow> string
     \<Rightarrow> int option \<Rightarrow> int option \<Rightarrow> real option \<Rightarrow> int option \<Rightarrow> int option
     \<Rightarrow> response \<times> event list" where
  "generate_video_from_text_route w model settings prompt negative_prompt
       num_frames num_inference_steps guidance_scale height' width' =
     (if \<not> is_loaded model then (HTTPException 503 ''Model not loaded'', [])
      else
        let num_frames' = or_default num_frames (default_num_frames settings);
            num_inference_steps' =
              or_default num_inference_steps (default_num_inference_steps settings);
            guidance_scale' = or_default guidance_scale (default_guidance_scale settings);
            called =
              (case WanVideoModel_getattr ''generate_video_from_text'' of
                 Inl e \<Rightarrow> Inl e
               | Inr attr \<Rightarrow> Inl (TypeError (attr @ '' got an unexpected keyword argument'')));
            body =
              (case called of
                 Inl e \<Rightarrow> (Inl e, [])
               | Inr output_frames \<Rightarrow>
                   save_video w settings (''generated_video_text_'' @ uuid4_hex w @ ''.mp4'')
                     output_frames)
        in (case body of
              (Inl e, events) \<Rightarrow>
                (HTTPException 500 (''Error generating video from text: '' @ str_exn e), events)
            | (Inr file_response, events) \<Rightarrow> (file_response, events)))"

section \<open>API routes, authenticated variant (gczm\_ti\_to\_video/api/routes.py)\<close>

text \<open>
  \<open>security = HTTPBearer()\<close> is FastAPI's bearer scheme, and every protected route
  depends on \<open>verify_api_token\<close>, which depends on \<open>security\<close>: the framework calls
  \<open>security\<close> on the request first. Its behaviour is the framework's: the header is
  split at the first space into scheme and token; with \<open>auto_error\<close> set, which is the
  default that \<open>HTTPBearer()\<close> leaves, a missing or malformed header ends the request
  with an error before the dependent function runs, and without it the result is
  \<open>None\<close>. The status of that error depends on the framework's version (403, later
  401), so it is a parameter.
\<close>

record HTTPAuthorizationCredentials =
  scheme :: string
  credentials :: string

definition get_authorization_scheme_param :: "string option \<Rightarrow> string \<times> string" where
  "get_authorization_scheme_param authorization =
     (case authorization of
        None \<Rightarrow> ([], [])
      | Some v \<Rightarrow>
          if v = [] then ([], [])
          else (takeWhile (\<lambda>c. c \<noteq> CHR '' '') v, drop 1 (dropWhile (\<lambda>c. c \<noteq> CHR '' '') v)))"

definition HTTPBearer_call ::
  "int \<Rightarrow> bool \<Rightarrow> string option \<Rightarrow> response + HTTPAuthorizationCredentials option" where
  "HTTPBearer_call error_status auto_error authorization =
     (case get_authorization_scheme_param authorization of
        (sch, cred) \<Rightarrow>
          if authorization = None \<or> authorization = Some [] \<or> sch = [] \<or> cred = [] then
            (if auto_error then Inl (HTTPException error_status ''Not authenticated'')
             else Inr None)
          else if lower sch \<noteq> ''bearer'' then
            (if auto_error
             then Inl (HTTPException error_status ''Invalid authentication credentials'')
             else Inr None)
          else Inr (Some \<lparr>scheme = sch, credentials = cred\<rparr>))"

definition security :: "int \<Rightarrow> string option \<Rightarrow> response + HTTPAuthorizationCredentials option" where
  "security error_status authorization = HTTPBearer_call error_status True authorization"

text \<open>
  \<open>verify_api_token\<close>, on the credentials that the dependency hands over. A token that
  is \<open>None\<close> or empty counts as not configured.
\<close>

definition verify_api_token ::
  "Settings \<Rightarrow> HTTPAuthorizationCredentials option \<Rightarrow> response + string" where
  "verify_api_token settings creds =
     (if \<not> require_auth settings then Inr ''anonymous''
      else
        (case creds of
           None \<Rightarrow> Inl (HTTPException 401 ''Missing authorization token'')
         | Some c \<Rightarrow>
             if api_token settings = None \<or> api_token settings = Some []
               then Inl (HTTPException 500 ''API token not configured on server'')
             else if Some (credentials c) \<noteq> api_token settings
               then Inl (HTTPException 401 ''Invalid authorization token'')
             else Inr ''authenticated_user''))"

text \<open>
  A protected route: \<open>user: str = Depends(verify_api_token)\<close>. The request carries the
  value of its \<open>Authorization\<close> header, or \<open>None\<close>. An exception of a dependency is the
  response, and the handler does not run.
\<close>

definition protected_route ::
  "int \<Rightarrow> Settings \<Rightarrow> string option \<Rightarrow> (string \<Rightarrow> response \<times> event list)
     \<Rightarrow> response \<times> event list" where
  "protected_route error_status settings authorization handler =
     (case security error_status authorization of
        Inl rejected \<Rightarrow> (rejected, [])
      | Inr creds \<Rightarrow>
          (case verify_api_token settings creds of
             Inl rejected \<Rightarrow> (rejected, [])
           | Inr user \<Rightarrow> handler user))"

text \<open>
  Modelled from the spec: the engine module of the authenticated variant is not among
  the sources. The spec gives both variants one engine contract, so the handlers below
  read the engine defined above.
\<close>

definition gczm_health_check ::
  "int \<Rightarrow> WanVideoModel \<Rightarrow> Settings \<Rightarrow> string option \<Rightarrow> response \<times> event list" where
  "gczm_health_check error_status model settings authorization =
     protected_route error_status settings authorization
       (\<lambda>user.
          (JSONResponse (JObject
             [(''status'', JString ''healthy''),
              (''message'', JString ''GCZMTIToVedio API is running''),
              (''version'', JString ''1.0.0''),
              (''user'', JString user),
              (''model_loaded'', JBool (is_loaded model)),
              (''device'', JString (model_device model)),
              (''model_path'', JString (model_path settings)),
              (''endpoints'', JObject
                 [(''generate_video'', JString ''/api/v1/generate_video''),
                  (''generate_video_from_text'', JString ''/api/v1/generate_video_from_text''),
                  (''model_info'', JString ''/api/v1/model/info''),
                  (''model_reload'', JString ''/api/v1/model/reload''),
                  (''docs'', JString ''/docs''),
                  (''redoc'', JString ''/redoc'')])]), []))"

definition gczm_model_info ::
  "int \<Rightarrow> WanVideoModel \<Rightarrow> Settings \<Rightarrow> string option \<Rightarrow> response \<times> event list" where
  "gczm_model_info error_status model settings authorization =
     protected_route error_status settings authorization
       (\<lambda>user.
          (JSONResponse (JObject
             [(''model_path'', JString (model_path settings)),
              (''device'', JString (model_device model)),
              (''dtype'', JString (model_dtype model)),
              (''is_loaded'', JBool (is_loaded model)),
              (''user'', JString user),
              (''default_settings'', JObject
                 [(''num_frames'', JInt (default_num_frames settings)),
                  (''num_inference_steps'', JInt (default_num_inference_steps settings)),
                  (''guidance_scale'', JReal (default_guidance_scale settings)),
                  (''max_area'', JInt (default_max_area settings))])]), []))"

definition gczm_generate_video ::
  "int \<Rightarrow> route_world \<Rightarrow> WanVideoModel \<Rightarrow> Settings \<Rightarrow> string option \<Rightarrow> UploadFile \<Rightarrow> string
     \<Rightarrow> string \<Rightarrow> int option \<Rightarrow> int option \<Rightarrow> real option \<Rightarrow> int option
     \<Rightarrow> response \<times> event list" where
  "gczm_generate_video error_status w model settings authorization image_file prompt
       negative_prompt num_frames num_inference_steps guidance_scale max_area =
     protected_route error_status settings authorization
       (\<lambda>user. generate_video_route w model settings image_file prompt negative_prompt
                  num_frames num_inference_steps guidance_scale max_area)"

section \<open>Properties of the image preprocessor\<close>

lemma resize_Inr:
  "resize img sz = Inr out \<Longrightarrow>
     int (width out) = fst sz \<and> int (height out) = snd sz \<and> mode out = mode img"
  by (auto simp: resize_def split: if_splits)

lemma resize_Inr_iff: "(\<exists>out. resize img sz = Inr out) \<longleftrightarrow> 0 < fst sz \<and> 0 < snd sz"
  by (auto simp: resize_def)

text \<open>
  Claim C3, as amended. For every image whose pixel area exceeds a non-negative
  \<open>max_area\<close>, the preprocessor computes in double precision the scale
  \<open>(max_area / area) ** 0.5\<close> and asks for the RGB image resized to the original width
  and height times that scale, each truncated and then rounded down to a multiple of 8,
  whatever the library's \<open>pow\<close> returns. Both requested dimensions are multiples of 8; an
  image is returned exactly when both are positive, and its width and height are then
  these positive multiples of 8.
\<close>

theorem preprocess_over_area:
  assumes over: "max_area < int (width img) * int (height img)" and nonneg: "0 \<le> max_area"
  shows "let scale = fpow (py_truediv max_area (int (width img) * int (height img))) (1 / 2);
             nw = py_int (float_mul (py_float (int (width img))) scale) div 8 * 8;
             nh = py_int (float_mul (py_float (int (height img))) scale) div 8 * 8 in
         ImageProcessor_call fpow img max_area = resize (img\<lparr>mode := ''RGB''\<rparr>) (nw, nh)
         \<and> 8 dvd nw \<and> 8 dvd nh
         \<and> (\<forall>out. ImageProcessor_call fpow img max_area = Inr out \<longrightarrow>
               int (width out) = nw \<and> int (height out) = nh
               \<and> 0 < width out \<and> 0 < height out \<and> 8 dvd width out \<and> 8 dvd height out)
         \<and> ((\<exists>out. ImageProcessor_call fpow img max_area = Inr out) \<longleftrightarrow> 0 < nw \<and> 0 < nh)"
proof -
  define scale where
    "scale = fpow (py_truediv max_area (int (width img) * int (height img))) (1 / 2)"
  define nw where "nw = py_int (float_mul (py_float (int (width img))) scale) div 8 * 8"
  define nh where "nh = py_int (float_mul (py_float (int (height img))) scale) div 8 * 8"
  define rgb where "rgb = img\<lparr>mode := ''RGB''\<rparr>"
  have rgb_eq: "(if mode img \<noteq> ''RGB'' then convert img ''RGB'' else img) = rgb"
    by (simp add: rgb_def convert_def)
  have sz: "width rgb = width img" "height rgb = height img"
    by (simp_all add: rgb_def)
  have area: "int (width img) * int (height img) \<noteq> 0"
    using over nonneg by linarith
  have call: "ImageProcessor_call fpow img max_area = resize rgb (nw, nh)"
    using over nonneg area unfolding ImageProcessor_call_def rgb_eq
    by (simp add: Let_def sz nw_def nh_def scale_def)
  have dvd: "8 dvd nw" "8 dvd nh"
    unfolding nw_def nh_def by simp_all
  have out: "int (width out) = nw \<and> int (height out) = nh
               \<and> 0 < width out \<and> 0 < height out \<and> 8 dvd width out \<and> 8 dvd height out"
    if ret: "ImageProcessor_call fpow img max_area = Inr out" for out
  proof -
    from ret have r: "resize rgb (nw, nh) = Inr out" unfolding call .
    from resize_Inr [OF r] have eq: "int (width out) = nw" "int (height out) = nh" by simp_all
    from r resize_Inr_iff [of rgb "(nw, nh)"] have pos: "0 < nw" "0 < nh" by auto
    from eq pos have "0 < width out" "0 < height out" by linarith+
    moreover from eq dvd have "8 dvd int (width out)" "8 dvd int (height out)" by simp_all
    then have "8 dvd width out" "8 dvd height out" by presburger+
    ultimately show ?thesis using eq by blast
  qed
  have ret_iff: "(\<exists>out. ImageProcessor_call fpow img max_area = Inr out) \<longleftrightarrow> 0 < nw \<and> 0 < nh"
    unfolding call using resize_Inr_iff [of rgb "(nw, nh)"] by simp
  from call dvd out ret_iff show ?thesis
    unfolding Let_def scale_def [symmetric] nw_def [symmetric] nh_def [symmetric]
      rgb_def [symmetric]
    by blast
qed

text \<open>
  Truncated products of the double arithmetic, on a library with a correctly rounded
  \<open>pow\<close>: 260 times the scale of a 260 by 3575 image against 901120 is
  255.99999999999997 and not 256, and 1089 times the scale of a 1980 by 1089 image is
  703.9999999999999.
\<close>

lemma scaled_260_3575:
  "py_int (float_mul (py_float 260) (sqrt_rn (py_truediv 901120 929500))) = 255"
  "py_int (float_mul (py_float 3575) (sqrt_rn (py_truediv 901120 929500))) = 3520"
  by code_simp+

lemma scaled_1980_1089:
  "py_int (float_mul (py_float 1980) (sqrt_rn (py_truediv 901120 2156220))) = 1280"
  "py_int (float_mul (py_float 1089) (sqrt_rn (py_truediv 901120 2156220))) = 703"
  by code_simp+

lemma scaled_65_65:
  "py_int (float_mul (py_float 65) (sqrt_rn (py_truediv 64 4225))) = 7"
  by code_simp

lemma scaled_100_4:
  "py_int (float_mul (py_float 100) (sqrt_rn (py_truediv 100 400))) = 50"
  "py_int (float_mul (py_float 4) (sqrt_rn (py_truediv 100 400))) = 2"
  by code_simp+

text \<open>
  A 260 by 3575 image in mode L against the default \<open>max_area\<close>: the width is
  truncated to 255 and rounded down to 248, the height is 3520.
\<close>

theorem preprocess_over_area_witness:
  "ImageProcessor_call correctly_rounded_pow \<lparr>mode = ''L'', width = 260, height = 3575\<rparr> 901120
     = Inr \<lparr>mode = ''RGB'', width = 248, height = 3520\<rparr>"
  using preprocess_over_area [of 901120 "\<lparr>mode = ''L'', width = 260, height = 3575\<rparr>"
      correctly_rounded_pow]
  by (simp add: Let_def correctly_rounded_pow_def scaled_260_3575 resize_def)

text \<open>
  Two more runs: 1980 by 1089 against the default \<open>max_area\<close>, and 65 by 65 against 64,
  where both products are 7.999999999999999 and the requested size is 0 by 0.
\<close>

lemma preprocess_1980_1089:
  "ImageProcessor_call correctly_rounded_pow \<lparr>mode = ''RGB'', width = 1980, height = 1089\<rparr> 901120
     = Inr \<lparr>mode = ''RGB'', width = 1280, height = 696\<rparr>"
  by (simp add: ImageProcessor_call_def Let_def correctly_rounded_pow_def scaled_1980_1089
        resize_def)

lemma preprocess_65_65:
  "ImageProcessor_call correctly_rounded_pow \<lparr>mode = ''RGB'', width = 65, height = 65\<rparr> 64
     = Inl (ValueError ''height and width must be > 0'')"
  by (simp add: ImageProcessor_call_def Let_def correctly_rounded_pow_def scaled_65_65
        resize_def)

text \<open>
  Claim C3 as stated fails: a 100 by 4 image against a \<open>max_area\<close> of 100 has the scale
  0.5, so the height becomes \<open>int(2.0) // 8 * 8 = 0\<close>. The preprocessor asks for a 48 by
  0 image, which is not a positive multiple of 8 in height, and no image comes back.
\<close>

theorem preprocess_over_area_not_positive:
  "ImageProcessor_call correctly_rounded_pow \<lparr>mode = ''RGB'', width = 100, height = 4\<rparr> 100
     = resize \<lparr>mode = ''RGB'', width = 100, height = 4\<rparr> (48, 0)
   \<and> ImageProcessor_call correctly_rounded_pow \<lparr>mode = ''RGB'', width = 100, height = 4\<rparr> 100
     = Inl (ValueError ''height and width must be > 0'')"
  by (simp add: ImageProcessor_call_def Let_def correctly_rounded_pow_def scaled_100_4
        resize_def)

text \<open>
  Claim C4. For every image whose pixel area is at most \<open>max_area\<close>, the preprocessor
  rounds each dimension down to the nearest multiple of 8 and leaves a dimension that is
  already a multiple of 8 unchanged: the result is the RGB image itself when nothing
  changes and the resize to the rounded size otherwise. Each rounded dimension is at most
  the input dimension, less than 8 below it, and divisible by 8; an image that is
  returned has exactly the rounded dimensions, and one is returned whenever both input
  dimensions are at least 8.
\<close>

theorem preprocess_within_area:
  assumes "int (width img) * int (height img) \<le> max_area"
  shows "let nw = int (width img) div 8 * 8; nh = int (height img) div 8 * 8 in
         ImageProcessor_call fpow img max_area =
           (if nw = int (width img) \<and> nh = int (height img) then Inr (img\<lparr>mode := ''RGB''\<rparr>)
            else resize (img\<lparr>mode := ''RGB''\<rparr>) (nw, nh))
         \<and> nw \<le> int (width img) \<and> int (width img) < nw + 8
         \<and> nh \<le> int (height img) \<and> int (height img) < nh + 8
         \<and> 8 dvd nw \<and> 8 dvd nh
         \<and> (8 dvd width img \<longrightarrow> nw = int (width img))
         \<and> (8 dvd height img \<longrightarrow> nh = int (height img))
         \<and> (\<forall>out. ImageProcessor_call fpow img max_area = Inr out \<longrightarrow>
               int (width out) = nw \<and> int (height out) = nh)
         \<and> (8 \<le> width img \<and> 8 \<le> height img \<longrightarrow>
               (\<exists>out. ImageProcessor_call fpow img max_area = Inr out))"
proof -
  define nw where "nw = int (width img) div 8 * 8"
  define nh where "nh = int (height img) div 8 * 8"
  define rgb where "rgb = img\<lparr>mode := ''RGB''\<rparr>"
  have rgb_eq: "(if mode img \<noteq> ''RGB'' then convert img ''RGB'' else img) = rgb"
    by (simp add: rgb_def convert_def)
  have sz: "width rgb = width img" "height rgb = height img"
    by (simp_all add: rgb_def)
  have call: "ImageProcessor_call fpow img max_area =
           (if nw = int (width img) \<and> nh = int (height img) then Inr rgb
            else resize rgb (nw, nh))"
    using assms unfolding ImageProcessor_call_def rgb_eq
    by (simp add: Let_def sz nw_def nh_def)
  have out: "int (width out) = nw \<and> int (height out) = nh"
    if "ImageProcessor_call fpow img max_area = Inr out" for out
    using that sz resize_Inr [of rgb "(nw, nh)" out] unfolding call
    by (auto split: if_splits)
  have pos: "\<exists>out. ImageProcessor_call fpow img max_area = Inr out"
    if "8 \<le> width img \<and> 8 \<le> height img"
  proof -
    have "0 < nw" "0 < nh" using that unfolding nw_def nh_def by presburger+
    then show ?thesis unfolding call by (simp add: resize_def)
  qed
  have dv: "8 dvd width img \<Longrightarrow> nw = int (width img)" "8 dvd height img \<Longrightarrow> nh = int (height img)"
    unfolding nw_def nh_def by presburger+
  have bounds: "nw \<le> int (width img)" "int (width img) < nw + 8"
      "nh \<le> int (height img)" "int (height img) < nh + 8" "8 dvd nw" "8 dvd nh"
    unfolding nw_def nh_def by presburger+
  from call bounds dv out pos show ?thesis
    unfolding Let_def nw_def [symmetric] nh_def [symmetric] rgb_def [symmetric]
    by blast
qed

text \<open>A 515 by 512 image within the default area: only the width shrinks, to 512.\<close>

theorem preprocess_within_area_witness:
  "ImageProcessor_call correctly_rounded_pow \<lparr>mode = ''RGB'', width = 515, height = 512\<rparr> 901120
     = Inr \<lparr>mode = ''RGB'', width = 512, height = 512\<rparr>"
  using preprocess_within_area [of "\<lparr>mode = ''RGB'', width = 515, height = 512\<rparr>" 901120
      correctly_rounded_pow]
  by (simp add: Let_def resize_def)

text \<open>
  A negative \<open>max_area\<close> is below every area, and the code then raises: the quotient is
  negative, its power 0.5 complex.
\<close>

lemma preprocess_negative_max_area:
  "ImageProcessor_call fpow \<lparr>mode = ''RGB'', width = 64, height = 64\<rparr> (- 1)
     = Inl (TypeError ''int() argument must be a real number, not complex'')"
  by (simp add: ImageProcessor_call_def Let_def)

section \<open>Properties of upload validation and of the output listing\<close>

lemma validate_image_file_cases:
  "validate_image_file file settings =
     (if (\<exists>n. upload_size file = SizeAttr (Some n) \<and> n \<noteq> 0 \<and> max_file_size settings < n)
      then Inl (ValueError ''File size exceeds maximum allowed size'')
      else if (\<exists>nm. filename file = Some nm \<and> nm \<noteq> [] \<and>
                 file_ext_of nm \<notin> set (get_allowed_extensions_list settings))
      then Inl (ValueError ''File extension not allowed'')
      else Inr ())"
  unfolding validate_image_file_def
  by (cases "upload_size file"; cases "filename file")
     (auto simp: Let_def split: option.splits)

text \<open>
  Claim C6, as amended. Upload validation fails with \<open>ValueError\<close> (the InvalidInput
  error) exactly when the declared size is present, not zero and above \<open>max_file_size\<close>,
  or the filename is present, not empty and its extension, lower-cased, is not in the
  allow-list; it succeeds exactly otherwise.
\<close>

theorem validate_image_file_rejects_iff:
  "((\<exists>msg. validate_image_file file settings = Inl (ValueError msg)) \<longleftrightarrow>
      (\<exists>n. upload_size file = SizeAttr (Some n) \<and> n \<noteq> 0 \<and> max_file_size settings < n)
      \<or> (\<exists>nm. filename file = Some nm \<and> nm \<noteq> [] \<and>
            file_ext_of nm \<notin> set (get_allowed_extensions_list settings)))
   \<and> (validate_image_file file settings = Inr () \<longleftrightarrow>
      \<not> ((\<exists>n. upload_size file = SizeAttr (Some n) \<and> n \<noteq> 0 \<and> max_file_size settings < n)
         \<or> (\<exists>nm. filename file = Some nm \<and> nm \<noteq> [] \<and>
               file_ext_of nm \<notin> set (get_allowed_extensions_list settings))))"
  unfolding validate_image_file_cases by auto

text \<open>
  The examples of the claim, against the allow-list jpg, png and a \<open>max_file_size\<close> of
  1000: photo.gif fails whatever its size, photo.jpg fails at 1001 declared bytes and
  passes at 1000.
\<close>

theorem validate_image_file_rejects_iff_witness:
  "validate_image_file \<lparr>filename = Some ''photo.gif'', upload_size = SizeAttr (Some 10), content = []\<rparr>
      (default_settings\<lparr>allowed_extensions := [''jpg'', ''png''], max_file_size := 1000\<rparr>)
     = Inl (ValueError ''File extension not allowed'')
   \<and> validate_image_file \<lparr>filename = Some ''photo.jpg'', upload_size = SizeAttr (Some 1001), content = []\<rparr>
      (default_settings\<lparr>allowed_extensions := [''jpg'', ''png''], max_file_size := 1000\<rparr>)
     = Inl (ValueError ''File size exceeds maximum allowed size'')
   \<and> validate_image_file \<lparr>filename = Some ''photo.jpg'', upload_size = SizeAttr (Some 1000), content = []\<rparr>
      (default_settings\<lparr>allowed_extensions := [''jpg'', ''png''], max_file_size := 1000\<rparr>)
     = Inr ()"
  using
    validate_image_file_rejects_iff [of "\<lparr>filename = Some ''photo.gif'', upload_size = SizeAttr (Some 10), content = []\<rparr>"
      "default_settings\<lparr>allowed_extensions := [''jpg'', ''png''], max_file_size := 1000\<rparr>"]
    validate_image_file_rejects_iff [of "\<lparr>filename = Some ''photo.jpg'', upload_size = SizeAttr (Some 1001), content = []\<rparr>"
      "default_settings\<lparr>allowed_extensions := [''jpg'', ''png''], max_file_size := 1000\<rparr>"]
    validate_image_file_rejects_iff [of "\<lparr>filename = Some ''photo.jpg'', upload_size = SizeAttr (Some 1000), content = []\<rparr>"
      "default_settings\<lparr>allowed_extensions := [''jpg'', ''png''], max_file_size := 1000\<rparr>"]
  by (simp add: validate_image_file_def default_settings_def get_allowed_extensions_list_def
        file_ext_of_def lstrip_def lower_def lower_char_def suffix_def path_name_def Let_def)

text \<open>
  Claim C6 as stated fails: an upload whose filename is the empty string has the
  extension \<open>''\<close>, which is not in the allow-list jpg, png, and validation passes,
  because the extension check sits behind \<open>if file.filename\<close>.
\<close>

theorem validate_image_file_empty_filename_passes:
  "file_ext_of [] \<notin> set (get_allowed_extensions_list
       (default_settings\<lparr>allowed_extensions := [''jpg'', ''png''], max_file_size := 1000\<rparr>))
   \<and> validate_image_file \<lparr>filename = Some [], upload_size = SizeAttr (Some 10), content = []\<rparr>
      (default_settings\<lparr>allowed_extensions := [''jpg'', ''png''], max_file_size := 1000\<rparr>)
     = Inr ()"
  by (simp add: validate_image_file_def default_settings_def get_allowed_extensions_list_def
        file_ext_of_def lstrip_def lower_def suffix_def path_name_def Let_def)

text \<open>
  Claim C9. Validation succeeds for every upload whose filename is \<open>None\<close> or empty and
  whose size attribute is missing, \<open>None\<close> or 0, whatever its bytes and whatever the
  settings.
\<close>

theorem validate_image_file_skips:
  assumes "filename file = None \<or> filename file = Some []"
    and "upload_size file = NoSizeAttr \<or> upload_size file = SizeAttr None
         \<or> upload_size file = SizeAttr (Some 0)"
  shows "validate_image_file file settings = Inr ()"
  using assms unfolding validate_image_file_def by auto

theorem validate_image_file_skips_witness:
  "validate_image_file \<lparr>filename = None, upload_size = SizeAttr (Some 0), content = ''not an image''\<rparr>
      default_settings = Inr ()
   \<and> validate_image_file \<lparr>filename = Some [], upload_size = NoSizeAttr, content = ''not an image''\<rparr>
      default_settings = Inr ()"
  using
    validate_image_file_skips [of "\<lparr>filename = None, upload_size = SizeAttr (Some 0), content = ''not an image''\<rparr>" default_settings]
    validate_image_file_skips [of "\<lparr>filename = Some [], upload_size = NoSizeAttr, content = ''not an image''\<rparr>" default_settings]
  by simp





section \<open>Properties of the launcher\<close>

lemma collect_missing_all_imported:
  "\<forall>p \<in> set ps. imp p = Imported \<Longrightarrow> collect_missing imp ps acc = Inr acc"
  by (induction ps arbitrary: acc) simp_all

lemma collect_missing_Inr:
  "collect_missing imp ps acc = Inr missing \<Longrightarrow>
     missing = acc @ filter (\<lambda>p. imp p \<noteq> Imported) ps"
proof (induction ps arbitrary: acc)
  case Nil
  then show ?case by simp
next
  case (Cons p ps)
  from Cons.prems Cons.IH [of acc] Cons.IH [of "acc @ [p]"] show ?case
    by (cases "imp p") auto
qed

lemma check_dependencies_True_iff:
  "check_dependencies w = Inr True \<longleftrightarrow> (\<forall>p \<in> set required_packages. import_package w p = Imported)"
proof
  assume ok: "check_dependencies w = Inr True"
  then obtain missing where
    m: "collect_missing (import_package w) required_packages [] = Inr missing" and "missing = []"
    by (auto simp: check_dependencies_def split: sum.splits if_splits)
  from collect_missing_Inr [OF m] \<open>missing = []\<close>
  have "filter (\<lambda>p. import_package w p \<noteq> Imported) required_packages = []" by simp
  then show "\<forall>p \<in> set required_packages. import_package w p = Imported"
    by (simp add: filter_empty_conv)
next
  assume "\<forall>p \<in> set required_packages. import_package w p = Imported"
  then show "check_dependencies w = Inr True"
    by (simp add: check_dependencies_def collect_missing_all_imported)
qed

lemma check_model_path_iff:
  "check_model_path w mp \<longleftrightarrow>
     os_path_exists w mp
     \<and> os_path_exists w (os_path_join mp ''model_index.json'')
     \<and> (os_path_exists w (os_path_join mp ''config.json'')
        \<or> os_path_exists w (os_path_join mp ''configuration.json''))"
  by (auto simp: check_model_path_def Let_def)

lemma checks_ignore_gpu:
  "check_dependencies (w\<lparr>torch_cuda := probe\<rparr>) = check_dependencies w"
  "check_model_path (w\<lparr>torch_cuda := probe\<rparr>) mp = check_model_path w mp"
  "start_server (w\<lparr>torch_cuda := probe\<rparr>) h p n r = start_server w h p n r"
  by (simp_all add: check_dependencies_def check_model_path_def start_server_def)

lemma checks_ignore_run:
  "check_dependencies (w\<lparr>subprocess_run := run\<rparr>) = check_dependencies w"
  "check_model_path (w\<lparr>subprocess_run := run\<rparr>) mp = check_model_path w mp"
  by (simp_all add: check_dependencies_def check_model_path_def)

text \<open>
  Claim C8. When the checks are not skipped, the exit code of the launcher is 1 if a
  required package does not import, or the model directory does not exist, lacks
  \<open>model_index.json\<close>, or lacks both \<open>config.json\<close> and \<open>configuration.json\<close>; it is 0
  otherwise. What the GPU probe does changes nothing, and how the server subprocess
  ends (also by an interrupt) does not change the exit code.
\<close>

theorem launcher_exit_code:
  assumes "\<not> skip_checks a"
  shows "exit_code (fst (main w settings a)) =
           (if (\<exists>p \<in> set required_packages. import_package w p \<noteq> Imported)
               \<or> \<not> os_path_exists w (model_path settings)
               \<or> \<not> os_path_exists w (os_path_join (model_path settings) ''model_index.json'')
               \<or> (\<not> os_path_exists w (os_path_join (model_path settings) ''config.json'')
                  \<and> \<not> os_path_exists w (os_path_join (model_path settings) ''configuration.json''))
            then 1 else 0)
         \<and> main (w\<lparr>torch_cuda := probe\<rparr>) settings a = main w settings a
         \<and> fst (main (w\<lparr>subprocess_run := run\<rparr>) settings a) = fst (main w settings a)"
proof -
  have gpu: "main (w\<lparr>torch_cuda := probe\<rparr>) settings a = main w settings a"
    by (simp add: main_def checks_ignore_gpu Let_def split: sum.splits)
  have run: "fst (main (w\<lparr>subprocess_run := run\<rparr>) settings a) = fst (main w settings a)"
    by (simp add: main_def checks_ignore_run Let_def split: sum.splits)
  have code: "exit_code (fst (main w settings a)) =
           (if \<not> (\<forall>p \<in> set required_packages. import_package w p = Imported)
               \<or> \<not> check_model_path w (model_path settings) then 1 else 0)"
  proof (cases "check_dependencies w")
    case (Inl e)
    then have "check_dependencies w \<noteq> Inr True" by simp
    then have "\<not> (\<forall>p \<in> set required_packages. import_package w p = Imported)"
      by (simp add: check_dependencies_True_iff)
    with Inl assms show ?thesis by (simp add: main_def)
  next
    case (Inr ok)
    show ?thesis
    proof (cases ok)
      case True
      with Inr have "\<forall>p \<in> set required_packages. import_package w p = Imported"
        by (simp add: check_dependencies_True_iff)
      with Inr True assms show ?thesis by (simp add: main_def Let_def)
    next
      case False
      with Inr have "check_dependencies w \<noteq> Inr True" by simp
      then have "\<not> (\<forall>p \<in> set required_packages. import_package w p = Imported)"
        by (simp add: check_dependencies_True_iff)
      with Inr False assms show ?thesis by (simp add: main_def)
    qed
  qed
  have "exit_code (fst (main w settings a)) =
           (if (\<exists>p \<in> set required_packages. import_package w p \<noteq> Imported)
               \<or> \<not> os_path_exists w (model_path settings)
               \<or> \<not> os_path_exists w (os_path_join (model_path settings) ''model_index.json'')
               \<or> (\<not> os_path_exists w (os_path_join (model_path settings) ''config.json'')
                  \<and> \<not> os_path_exists w (os_path_join (model_path settings) ''configuration.json''))
            then 1 else 0)"
    unfolding code check_model_path_iff by auto
  with gpu run show ?thesis by blast
qed

text \<open>
  All packages import, the model directory is complete, the GPU probe raises and the
  server is interrupted: exit code 0. With torch missing: exit code 1.
\<close>

theorem launcher_exit_code_witness:
  "exit_code (fst (main
      \<lparr>import_package = (\<lambda>p. Imported),
       os_path_exists = (\<lambda>p. p \<in> set [''/models/wan'', ''/models/wan/model_index.json'',
                                       ''/models/wan/configuration.json'']),
       torch_cuda = GpuProbeRaises ''no driver'',
       sys_executable = ''/usr/bin/python3'',
       subprocess_run = (\<lambda>c. RunInterrupted)\<rparr>
      (default_settings\<lparr>model_path := ''/models/wan''\<rparr>)
      \<lparr>host = ''0.0.0.0'', port = 8000, workers = 1, no_reload = False, skip_checks = False\<rparr>)) = 0
   \<and> exit_code (fst (main
      \<lparr>import_package = (\<lambda>p. if p = ''torch'' then RaisesImportError else Imported),
       os_path_exists = (\<lambda>p. p \<in> set [''/models/wan'', ''/models/wan/model_index.json'',
                                       ''/models/wan/configuration.json'']),
       torch_cuda = GpuUnavailable,
       sys_executable = ''/usr/bin/python3'',
       subprocess_run = (\<lambda>c. RunReturned)\<rparr>
      (default_settings\<lparr>model_path := ''/models/wan''\<rparr>)
      \<lparr>host = ''0.0.0.0'', port = 8000, workers = 1, no_reload = False, skip_checks = False\<rparr>)) = 1"
  using
    launcher_exit_code [of "\<lparr>host = ''0.0.0.0'', port = 8000, workers = 1, no_reload = False, skip_checks = False\<rparr>"
      "\<lparr>import_package = (\<lambda>p. Imported),
       os_path_exists = (\<lambda>p. p \<in> set [''/models/wan'', ''/models/wan/model_index.json'',
                                       ''/models/wan/configuration.json'']),
       torch_cuda = GpuProbeRaises ''no driver'',
       sys_executable = ''/usr/bin/python3'',
       subprocess_run = (\<lambda>c. RunInterrupted)\<rparr>"
      "default_settings\<lparr>model_path := ''/models/wan''\<rparr>"]
    launcher_exit_code [of "\<lparr>host = ''0.0.0.0'', port = 8000, workers = 1, no_reload = False, skip_checks = False\<rparr>"
      "\<lparr>import_package = (\<lambda>p. if p = ''torch'' then RaisesImportError else Imported),
       os_path_exists = (\<lambda>p. p \<in> set [''/models/wan'', ''/models/wan/model_index.json'',
                                       ''/models/wan/configuration.json'']),
       torch_cuda = GpuUnavailable,
       sys_executable = ''/usr/bin/python3'',
       subprocess_run = (\<lambda>c. RunReturned)\<rparr>"
      "default_settings\<lparr>model_path := ''/models/wan''\<rparr>"]
  by (simp add: default_settings_def os_path_join_def required_packages_def)

section \<open>Properties of the engine and of the routes\<close>

lemma or_default_zero: "or_default (Some 0) d = or_default None d"
  by (simp add: or_default_def)

lemma or_default_eq: "or_default v d = (if v = None \<or> v = Some 0 then d else the v)"
  by (auto simp: or_default_def split: option.splits)

text \<open>
  Claim C5. In every engine state whose pipeline handle or preprocessor handle is
  absent, \<open>is_loaded\<close> is false, \<open>generate_video\<close> raises the runtime error "Model not
  loaded" with no call into the pipeline, and both generation routes answer 503 without
  a call to the engine.
\<close>

theorem unloaded_engine_rejects:
  assumes "pipe m = None \<or> image_processor m = None"
  shows "\<not> is_loaded m
       \<and> generate_video fpow m img prompt negative_prompt num_frames num_inference_steps
            guidance_scale max_area
          = (Inl (RuntimeError ''Model not loaded''), [])
       \<and> generate_video_route w m settings image_file prompt negative_prompt
            opt_frames opt_steps opt_scale opt_area
          = (HTTPException 503 ''Model not loaded'', [])
       \<and> generate_video_from_text_route w m settings prompt negative_prompt
            opt_frames opt_steps opt_scale opt_height opt_width
          = (HTTPException 503 ''Model not loaded'', [])"
proof -
  from assms have unloaded: "\<not> is_loaded m"
    by (auto simp: is_loaded_def)
  then show ?thesis
    by (simp add: generate_video_def generate_video_route_def
          generate_video_from_text_route_def)
qed

theorem unloaded_engine_rejects_witness:
  "generate_video correctly_rounded_pow
      \<lparr>pipe = Some (\<lambda>k. Inr [[1, 2, 3]]), image_processor = None,
        model_device = ''cuda'', model_dtype = ''torch.bfloat16''\<rparr>
      \<lparr>mode = ''RGB'', width = 512, height = 512\<rparr> ''a cat'' [] 121 50 5 901120
     = (Inl (RuntimeError ''Model not loaded''), [])"
  using unloaded_engine_rejects [of "\<lparr>pipe = Some (\<lambda>k. Inr [[1, 2, 3]]), image_processor = None,
        model_device = ''cuda'', model_dtype = ''torch.bfloat16''\<rparr>"]
  by simp

lemma no_generate_video_from_text:
  "WanVideoModel_getattr ''generate_video_from_text''
     = Inl (AttributeError ''WanVideoModel object has no attribute generate_video_from_text'')"
  by (simp add: WanVideoModel_getattr_def WanVideoModel_attributes_def)

lemma text_route_never_succeeds:
  "is_loaded m \<Longrightarrow>
     generate_video_from_text_route w m settings prompt negative_prompt f s g h wd
     = (HTTPException 500
          ''Error generating video from text: WanVideoModel object has no attribute generate_video_from_text'',
        [])"
  by (simp add: generate_video_from_text_route_def no_generate_video_from_text Let_def)

text \<open>
  Claim C1 does not hold of the code. With the engine loaded,
  \<open>POST /generate_video_from_text\<close> with the prompt "a red ball bouncing", height 720,
  width 1280, 121 frames, 50 steps and guidance scale 5.0 answers 500: the class
  \<open>WanVideoModel\<close> has no method \<open>generate_video_from_text\<close>, the lookup raises
  \<open>AttributeError\<close> inside the handler's \<open>try\<close>, and no engine or pipeline call is made.
\<close>

theorem text_route_fails_when_loaded:
  "is_loaded \<lparr>pipe = Some (\<lambda>k. Inr [[1, 2, 3]]), image_processor = Some (),
        model_device = ''cuda'', model_dtype = ''torch.bfloat16''\<rparr>
   \<and> generate_video_from_text_route
        \<lparr>float_pow = correctly_rounded_pow,
         Image_open = (\<lambda>bytes. Inr \<lparr>mode = ''RGB'', width = 512, height = 512\<rparr>),
         uuid4_hex = ''0123456789abcdef0123456789abcdef'',
         mkdir = (\<lambda>d. Inr ()), export_to_video = (\<lambda>frames path fps. Inr ())\<rparr>
        \<lparr>pipe = Some (\<lambda>k. Inr [[1, 2, 3]]), image_processor = Some (),
         model_device = ''cuda'', model_dtype = ''torch.bfloat16''\<rparr>
        default_settings ''a red ball bouncing'' ''blurry'' (Some 121) (Some 50) (Some 5)
        (Some 720) (Some 1280)
     = (HTTPException 500
          ''Error generating video from text: WanVideoModel object has no attribute generate_video_from_text'',
        [])"
  by (simp add: is_loaded_def generate_video_from_text_route_def no_generate_video_from_text Let_def)

text \<open>
  What the generation handler hands to the engine once the engine is loaded, the upload
  valid and the image decoded; what the engine hands to the pipeline once the image is
  preprocessed; and the authenticated handler behind a resolved identity.
\<close>

lemma generate_video_route_trace:
  assumes loaded: "is_loaded m"
    and valid: "validate_image_file image_file settings = Inr ()"
    and decoded: "Image_open w (content image_file) = Inr img"
  shows "\<exists>rest. snd (generate_video_route w m settings image_file prompt negative_prompt nf st gs ma)
           = EngineGenerateVideo img prompt negative_prompt
               (or_default nf (default_num_frames settings))
               (or_default st (default_num_inference_steps settings))
               (or_default gs (default_guidance_scale settings))
               (or_default ma (default_max_area settings)) # rest"
  using loaded valid decoded unfolding generate_video_route_def
  by (auto simp: Let_def split: prod.splits sum.splits)

lemma generate_video_calls:
  assumes loaded: "is_loaded m"
    and processed: "ImageProcessor_call fpow img max_area = Inr processed"
  shows "snd (generate_video fpow m img prompt negative_prompt num_frames num_inference_steps
                guidance_scale max_area)
           = [\<lparr>pk_image = processed, pk_prompt = prompt, pk_negative_prompt = negative_prompt,
               pk_height = int (height processed), pk_width = int (width processed),
               pk_num_frames = num_frames, pk_guidance_scale = guidance_scale,
               pk_num_inference_steps = num_inference_steps\<rparr>]"
  using loaded processed unfolding generate_video_def is_loaded_def
  by (auto simp: Let_def split: option.splits sum.splits list.splits)

lemma generate_video_route_pipeline:
  assumes loaded: "is_loaded m"
    and valid: "validate_image_file image_file settings = Inr ()"
    and decoded: "Image_open w (content image_file) = Inr img"
    and processed: "ImageProcessor_call (float_pow w) img
                      (or_default ma (default_max_area settings)) = Inr processed"
  shows "\<exists>rest. snd (generate_video_route w m settings image_file prompt negative_prompt nf st gs ma)
           = EngineGenerateVideo img prompt negative_prompt
               (or_default nf (default_num_frames settings))
               (or_default st (default_num_inference_steps settings))
               (or_default gs (default_guidance_scale settings))
               (or_default ma (default_max_area settings))
             # PipelineCall
                \<lparr>pk_image = processed, pk_prompt = prompt, pk_negative_prompt = negative_prompt,
                 pk_height = int (height processed), pk_width = int (width processed),
                 pk_num_frames = or_default nf (default_num_frames settings),
                 pk_guidance_scale = or_default gs (default_guidance_scale settings),
                 pk_num_inference_steps = or_default st (default_num_inference_steps settings)\<rparr>
             # rest"
proof -
  let ?g = "generate_video (float_pow w) m img prompt negative_prompt
              (or_default nf (default_num_frames settings))
              (or_default st (default_num_inference_steps settings))
              (or_default gs (default_guidance_scale settings))
              (or_default ma (default_max_area settings))"
  from generate_video_calls [OF loaded processed]
  have calls: "snd ?g = [\<lparr>pk_image = processed, pk_prompt = prompt,
                 pk_negative_prompt = negative_prompt,
                 pk_height = int (height processed), pk_width = int (width processed),
                 pk_num_frames = or_default nf (default_num_frames settings),
                 pk_guidance_scale = or_default gs (default_guidance_scale settings),
                 pk_num_inference_steps = or_default st (default_num_inference_steps settings)\<rparr>]"
    by simp
  obtain r c where g: "?g = (r, c)" by (cases ?g)
  with calls have c: "c = [\<lparr>pk_image = processed, pk_prompt = prompt,
                 pk_negative_prompt = negative_prompt,
                 pk_height = int (height processed), pk_width = int (width processed),
                 pk_num_frames = or_default nf (default_num_frames settings),
                 pk_guidance_scale = or_default gs (default_guidance_scale settings),
                 pk_num_inference_steps = or_default st (default_num_inference_steps settings)\<rparr>]"
    by simp
  show ?thesis
    using loaded valid decoded g unfolding generate_video_route_def c
    by (auto simp: Let_def split: prod.splits sum.splits)
qed

lemma gczm_generate_video_authenticated:
  assumes "security es auth = Inr creds" and "verify_api_token settings creds = Inr user"
  shows "gczm_generate_video es w m settings auth image_file prompt negative_prompt nf st gs ma
           = generate_video_route w m settings image_file prompt negative_prompt nf st gs ma"
  using assms by (simp add: gczm_generate_video_def protected_route_def)

text \<open>
  Claim C10. In the generation handler of either variant, a numeric form field sent as
  0 (\<open>num_frames\<close>, \<open>num_inference_steps\<close>, \<open>max_area\<close>) or 0.0 (\<open>guidance_scale\<close>) gives
  the same response and the same engine calls as the field left out, whatever the other
  fields are. When the handler reaches the engine, the engine is called with the
  configured default of the settings in place of every field that is 0 or left out, and
  with the value sent otherwise; the pipeline receives the same numbers. The handler of
  the authenticated variant is this handler whenever the identity resolves.
\<close>

theorem zero_field_is_default:
  "generate_video_route w m settings image_file prompt negative_prompt (Some 0) st gs ma
     = generate_video_route w m settings image_file prompt negative_prompt None st gs ma
   \<and> generate_video_route w m settings image_file prompt negative_prompt nf (Some 0) gs ma
     = generate_video_route w m settings image_file prompt negative_prompt nf None gs ma
   \<and> generate_video_route w m settings image_file prompt negative_prompt nf st (Some 0) ma
     = generate_video_route w m settings image_file prompt negative_prompt nf st None ma
   \<and> generate_video_route w m settings image_file prompt negative_prompt nf st gs (Some 0)
     = generate_video_route w m settings image_file prompt negative_prompt nf st gs None
   \<and> gczm_generate_video es w m settings auth image_file prompt negative_prompt (Some 0) st gs ma
     = gczm_generate_video es w m settings auth image_file prompt negative_prompt None st gs ma
   \<and> gczm_generate_video es w m settings auth image_file prompt negative_prompt nf (Some 0) gs ma
     = gczm_generate_video es w m settings auth image_file prompt negative_prompt nf None gs ma
   \<and> gczm_generate_video es w m settings auth image_file prompt negative_prompt nf st (Some 0) ma
     = gczm_generate_video es w m settings auth image_file prompt negative_prompt nf st None ma
   \<and> gczm_generate_video es w m settings auth image_file prompt negative_prompt nf st gs (Some 0)
     = gczm_generate_video es w m settings auth image_file prompt negative_prompt nf st gs None
   \<and> (\<forall>img. is_loaded m \<and> validate_image_file image_file settings = Inr ()
          \<and> Image_open w (content image_file) = Inr img \<longrightarrow>
        (let num_frames' =
               (if nf = None \<or> nf = Some 0 then default_num_frames settings else the nf);
             num_inference_steps' =
               (if st = None \<or> st = Some 0 then default_num_inference_steps settings
                else the st);
             guidance_scale' =
               (if gs = None \<or> gs = Some 0 then default_guidance_scale settings else the gs);
             max_area' =
               (if ma = None \<or> ma = Some 0 then default_max_area settings else the ma)
         in (\<exists>rest. snd (generate_video_route w m settings image_file prompt negative_prompt
                            nf st gs ma)
               = EngineGenerateVideo img prompt negative_prompt
                   num_frames' num_inference_steps' guidance_scale' max_area' # rest)
            \<and> (\<forall>processed.
                  ImageProcessor_call (float_pow w) img max_area' = Inr processed \<longrightarrow>
                  (\<exists>rest. snd (generate_video_route w m settings image_file prompt
                                  negative_prompt nf st gs ma)
                     = EngineGenerateVideo img prompt negative_prompt
                         num_frames' num_inference_steps' guidance_scale' max_area'
                       # PipelineCall
                           \<lparr>pk_image = processed, pk_prompt = prompt,
                            pk_negative_prompt = negative_prompt,
                            pk_height = int (height processed),
                            pk_width = int (width processed),
                            pk_num_frames = num_frames',
                            pk_guidance_scale = guidance_scale',
                            pk_num_inference_steps = num_inference_steps'\<rparr>
                       # rest))))
   \<and> (\<forall>creds user. security es auth = Inr creds \<and> verify_api_token settings creds = Inr user
          \<longrightarrow> gczm_generate_video es w m settings auth image_file prompt negative_prompt
                 nf st gs ma
               = generate_video_route w m settings image_file prompt negative_prompt
                   nf st gs ma)"
proof -
  have eqs:
    "generate_video_route w m settings image_file prompt negative_prompt (Some 0) st gs ma
       = generate_video_route w m settings image_file prompt negative_prompt None st gs ma"
    "generate_video_route w m settings image_file prompt negative_prompt nf (Some 0) gs ma
       = generate_video_route w m settings image_file prompt negative_prompt nf None gs ma"
    "generate_video_route w m settings image_file prompt negative_prompt nf st (Some 0) ma
       = generate_video_route w m settings image_file prompt negative_prompt nf st None ma"
    "generate_video_route w m settings image_file prompt negative_prompt nf st gs (Some 0)
       = generate_video_route w m settings image_file prompt negative_prompt nf st gs None"
    unfolding generate_video_route_def or_default_zero by simp_all
  have geqs:
    "gczm_generate_video es w m settings auth image_file prompt negative_prompt (Some 0) st gs ma
       = gczm_generate_video es w m settings auth image_file prompt negative_prompt None st gs ma"
    "gczm_generate_video es w m settings auth image_file prompt negative_prompt nf (Some 0) gs ma
       = gczm_generate_video es w m settings auth image_file prompt negative_prompt nf None gs ma"
    "gczm_generate_video es w m settings auth image_file prompt negative_prompt nf st (Some 0) ma
       = gczm_generate_video es w m settings auth image_file prompt negative_prompt nf st None ma"
    "gczm_generate_video es w m settings auth image_file prompt negative_prompt nf st gs (Some 0)
       = gczm_generate_video es w m settings auth image_file prompt negative_prompt nf st gs None"
    unfolding gczm_generate_video_def eqs by simp_all
  have trace: "\<forall>img. is_loaded m \<and> validate_image_file image_file settings = Inr ()
          \<and> Image_open w (content image_file) = Inr img \<longrightarrow>
        (let num_frames' =
               (if nf = None \<or> nf = Some 0 then default_num_frames settings else the nf);
             num_inference_steps' =
               (if st = None \<or> st = Some 0 then default_num_inference_steps settings
                else the st);
             guidance_scale' =
               (if gs = None \<or> gs = Some 0 then default_guidance_scale settings else the gs);
             max_area' =
               (if ma = None \<or> ma = Some 0 then default_max_area settings else the ma)
         in (\<exists>rest. snd (generate_video_route w m settings image_file prompt negative_prompt
                            nf st gs ma)
               = EngineGenerateVideo img prompt negative_prompt
                   num_frames' num_inference_steps' guidance_scale' max_area' # rest)
            \<and> (\<forall>processed.
                  ImageProcessor_call (float_pow w) img max_area' = Inr processed \<longrightarrow>
                  (\<exists>rest. snd (generate_video_route w m settings image_file prompt
                                  negative_prompt nf st gs ma)
                     = EngineGenerateVideo img prompt negative_prompt
                         num_frames' num_inference_steps' guidance_scale' max_area'
                       # PipelineCall
                           \<lparr>pk_image = processed, pk_prompt = prompt,
                            pk_negative_prompt = negative_prompt,
                            pk_height = int (height processed),
                            pk_width = int (width processed),
                            pk_num_frames = num_frames',
                            pk_guidance_scale = guidance_scale',
                            pk_num_inference_steps = num_inference_steps'\<rparr>
                       # rest)))"
    unfolding Let_def or_default_eq [symmetric]
  proof (intro allI impI conjI)
    fix img
    assume g: "is_loaded m \<and> validate_image_file image_file settings = Inr ()
          \<and> Image_open w (content image_file) = Inr img"
    then show "\<exists>rest. snd (generate_video_route w m settings image_file prompt negative_prompt
                            nf st gs ma)
               = EngineGenerateVideo img prompt negative_prompt
                   (or_default nf (default_num_frames settings))
                   (or_default st (default_num_inference_steps settings))
                   (or_default gs (default_guidance_scale settings))
                   (or_default ma (default_max_area settings)) # rest"
      using generate_video_route_trace [of m image_file settings w img] by simp
    fix processed
    assume "ImageProcessor_call (float_pow w) img (or_default ma (default_max_area settings))
              = Inr processed"
    with g show "\<exists>rest. snd (generate_video_route w m settings image_file prompt
                                  negative_prompt nf st gs ma)
                     = EngineGenerateVideo img prompt negative_prompt
                         (or_default nf (default_num_frames settings))
                         (or_default st (default_num_inference_steps settings))
                         (or_default gs (default_guidance_scale settings))
                         (or_default ma (default_max_area settings))
                       # PipelineCall
                           \<lparr>pk_image = processed, pk_prompt = prompt,
                            pk_negative_prompt = negative_prompt,
                            pk_height = int (height processed),
                            pk_width = int (width processed),
                            pk_num_frames = or_default nf (default_num_frames settings),
                            pk_guidance_scale = or_default gs (default_guidance_scale settings),
                            pk_num_inference_steps =
                              or_default st (default_num_inference_steps settings)\<rparr>
                       # rest"
      using generate_video_route_pipeline [of m image_file settings w img ma processed] by simp
  qed
  have auth: "\<forall>creds user. security es auth = Inr creds
          \<and> verify_api_token settings creds = Inr user
          \<longrightarrow> gczm_generate_video es w m settings auth image_file prompt negative_prompt
                 nf st gs ma
               = generate_video_route w m settings image_file prompt negative_prompt
                   nf st gs ma"
    using gczm_generate_video_authenticated by blast
  from eqs geqs trace auth show ?thesis by blast
qed

text \<open>
  The authenticated variant with a valid bearer token, settings whose four defaults are
  7, 9, 3 and 500000, and all four fields sent as 0: engine and pipeline receive the
  configured values.
\<close>

theorem zero_field_is_default_witness:
  "gczm_generate_video 403
      \<lparr>float_pow = correctly_rounded_pow,
       Image_open = (\<lambda>bytes. Inr \<lparr>mode = ''RGB'', width = 515, height = 512\<rparr>),
       uuid4_hex = ''0123456789abcdef0123456789abcdef'',
       mkdir = (\<lambda>d. Inr ()), export_to_video = (\<lambda>frames path fps. Inr ())\<rparr>
      \<lparr>pipe = Some (\<lambda>k. Inr [[1, 2, 3]]), image_processor = Some (),
       model_device = ''cuda'', model_dtype = ''torch.bfloat16''\<rparr>
      (default_settings\<lparr>default_num_frames := 7, default_num_inference_steps := 9,
         default_guidance_scale := 3, default_max_area := 500000,
         require_auth := True, api_token := Some ''secret''\<rparr>)
      (Some ''bearer secret'')
      \<lparr>filename = Some ''test.jpg'', upload_size = SizeAttr (Some 2048), content = ''jpeg bytes''\<rparr>
      ''a cat'' ''blurry'' (Some 0) (Some 0) (Some 0) (Some 0)
     = (FileResponse ''outputs/generated_video_0123456789abcdef0123456789abcdef.mp4'' ''video/mp4''
          ''generated_video_0123456789abcdef0123456789abcdef.mp4'',
        [EngineGenerateVideo \<lparr>mode = ''RGB'', width = 515, height = 512\<rparr> ''a cat'' ''blurry''
           7 9 3 500000,
         PipelineCall \<lparr>pk_image = \<lparr>mode = ''RGB'', width = 512, height = 512\<rparr>,
           pk_prompt = ''a cat'', pk_negative_prompt = ''blurry'', pk_height = 512,
           pk_width = 512, pk_num_frames = 7, pk_guidance_scale = 3,
           pk_num_inference_steps = 9\<rparr>,
         EngineExportVideo [1, 2, 3]
           ''outputs/generated_video_0123456789abcdef0123456789abcdef.mp4'' 24])"
proof -
  have "gczm_generate_video 403
      \<lparr>float_pow = correctly_rounded_pow,
       Image_open = (\<lambda>bytes. Inr \<lparr>mode = ''RGB'', width = 515, height = 512\<rparr>),
       uuid4_hex = ''0123456789abcdef0123456789abcdef'',
       mkdir = (\<lambda>d. Inr ()), export_to_video = (\<lambda>frames path fps. Inr ())\<rparr>
      \<lparr>pipe = Some (\<lambda>k. Inr [[1, 2, 3]]), image_processor = Some (),
       model_device = ''cuda'', model_dtype = ''torch.bfloat16''\<rparr>
      (default_settings\<lparr>default_num_frames := 7, default_num_inference_steps := 9,
         default_guidance_scale := 3, default_max_area := 500000,
         require_auth := True, api_token := Some ''secret''\<rparr>)
      (Some ''bearer secret'')
      \<lparr>filename = Some ''test.jpg'', upload_size = SizeAttr (Some 2048), content = ''jpeg bytes''\<rparr>
      ''a cat'' ''blurry'' None None None None
     = (FileResponse ''outputs/generated_video_0123456789abcdef0123456789abcdef.mp4'' ''video/mp4''
          ''generated_video_0123456789abcdef0123456789abcdef.mp4'',
        [EngineGenerateVideo \<lparr>mode = ''RGB'', width = 515, height = 512\<rparr> ''a cat'' ''blurry''
           7 9 3 500000,
         PipelineCall \<lparr>pk_image = \<lparr>mode = ''RGB'', width = 512, height = 512\<rparr>,
           pk_prompt = ''a cat'', pk_negative_prompt = ''blurry'', pk_height = 512,
           pk_width = 512, pk_num_frames = 7, pk_guidance_scale = 3,
           pk_num_inference_steps = 9\<rparr>,
         EngineExportVideo [1, 2, 3]
           ''outputs/generated_video_0123456789abcdef0123456789abcdef.mp4'' 24])"
    by (simp add: gczm_generate_video_def protected_route_def security_def HTTPBearer_call_def
          get_authorization_scheme_param_def verify_api_token_def
          generate_video_route_def is_loaded_def validate_image_file_def
          default_settings_def get_allowed_extensions_list_def file_ext_of_def lstrip_def
          lower_def lower_char_def suffix_def path_name_def or_default_def generate_video_def
          ImageProcessor_call_def resize_def save_video_def export_video_def os_path_join_def
          Let_def)
  with zero_field_is_default show ?thesis by simp
qed

lemma security_no_header:
  "security error_status None = Inl (HTTPException error_status ''Not authenticated'')"
  by (simp add: security_def HTTPBearer_call_def get_authorization_scheme_param_def)

lemma protected_route_no_header:
  "protected_route error_status settings None handler
     = (HTTPException error_status ''Not authenticated'', [])"
  by (simp add: protected_route_def security_no_header)

lemma verify_api_token_no_credentials:
  "verify_api_token settings None
     = (if require_auth settings then Inl (HTTPException 401 ''Missing authorization token'')
        else Inr ''anonymous'')"
  by (simp add: verify_api_token_def)

text \<open>
  Claim C2 does not hold of the code. A request without an \<open>Authorization\<close> header never
  reaches \<open>verify_api_token\<close>: the bearer scheme it depends on is built with its default
  \<open>auto_error\<close> and ends the request first. With \<open>require_auth\<close> false the health route
  answers "Not authenticated" (here with the status 403) instead of the identity
  anonymous, and with \<open>require_auth\<close> true it gives the same answer, not the 401 of
  \<open>verify_api_token\<close>.
\<close>

theorem headerless_request_never_anonymous:
  "\<not> require_auth default_settings
   \<and> gczm_health_check 403
        \<lparr>pipe = None, image_processor = None, model_device = ''cpu'',
         model_dtype = ''torch.bfloat16''\<rparr>
        default_settings None
     = (HTTPException 403 ''Not authenticated'', [])
   \<and> gczm_health_check 403
        \<lparr>pipe = None, image_processor = None, model_device = ''cpu'',
         model_dtype = ''torch.bfloat16''\<rparr>
        (default_settings\<lparr>require_auth := True, api_token := Some ''secret''\<rparr>) None
     = (HTTPException 403 ''Not authenticated'', [])"
  by (simp add: gczm_health_check_def protected_route_no_header default_settings_def)

end
